theory Spec2Isabelle
  imports Main "HOL-Library.Word" "HOL-Library.Signed_Division"
begin

unbundle bit_operations_syntax

section \<open>Wire data\<close>

text \<open>
  The two programs of the repository, \<^verbatim>\<open>read_spectral_data.c\<close> (the spectral dump) and
  \<^verbatim>\<open>read_peak_data.c\<close> (the force-calibrated dump), read the frames of an I4
  interrogator from a TCP socket. Both are built for Windows on x86 (\<^verbatim>\<open>winsock2.h\<close>):
  the structs are packed, and a multi-byte field is read little-endian.
\<close>

type_synonym byte = "8 word"
type_synonym uint16_t = "16 word"
type_synonym uint32_t = "32 word"
type_synonym uint64_t = "64 word"

definition HEADER_SIZE :: nat where "HEADER_SIZE = 16"
definition ERROR_PAYLOAD_SIZE :: nat where "ERROR_PAYLOAD_SIZE = 8"
definition PEAK_PAYLOAD_SIZE :: nat where "PEAK_PAYLOAD_SIZE = 8"
definition TSPEAK_PAYLOAD_SIZE :: nat where "TSPEAK_PAYLOAD_SIZE = 12"
definition SPECTRAL_PAYLOAD_SIZE :: nat where "SPECTRAL_PAYLOAD_SIZE = 8"
definition FLAG_SIZE :: nat where "FLAG_SIZE = 8"

text \<open>Reading a packed struct field of 2, 4 or 8 bytes at a byte offset of a buffer.\<close>

definition le16 :: "byte list \<Rightarrow> nat \<Rightarrow> uint16_t" where
  "le16 b off = ucast (b ! off) OR push_bit 8 (ucast (b ! (off + 1)))"

definition le32 :: "byte list \<Rightarrow> nat \<Rightarrow> uint32_t" where
  "le32 b off = ucast (le16 b off) OR push_bit 16 (ucast (le16 b (off + 2)))"

definition le64 :: "byte list \<Rightarrow> nat \<Rightarrow> uint64_t" where
  "le64 b off = ucast (le32 b off) OR push_bit 32 (ucast (le32 b (off + 4)))"

section \<open>Field extractors\<close>

text \<open>
  \<^verbatim>\<open>peak_data\<close> is an array of two (\<^verbatim>\<open>peak_data_t\<close>) or three (\<^verbatim>\<open>ts_peak_data_t\<close>)
  32-bit words, here a list. The extractors are the same in both programs.

  \<^verbatim>\<open>wavelength\<close> overwrites the low 16 bits of word 0 with \<^verbatim>\<open>0x7fff\<close> and returns the two
  words read as one \<^verbatim>\<open>double\<close>: \<^verbatim>\<open>*(double*)&peak_value\<close>. The model returns the 64-bit
  pattern of that double, word 0 in the low half (little-endian); the floating-point
  value it denotes is not interpreted. \<^verbatim>\<open>~0xffff\<close> is the \<^verbatim>\<open>int\<close> \<^verbatim>\<open>-65536\<close>, converted
  to \<^verbatim>\<open>0xffff0000\<close> by the \<^verbatim>\<open>&\<close> with a \<^verbatim>\<open>uint32_t\<close>.
\<close>

definition wavelength :: "uint32_t list \<Rightarrow> uint64_t" where
  "wavelength peak_data =
     (let peak_value = [(peak_data ! 0 AND NOT 0xffff) OR 0x7fff, peak_data ! 1]
      in ucast (peak_value ! 0) OR push_bit 32 (ucast (peak_value ! 1)))"

text \<open>
  In \<^verbatim>\<open>(uint8_t)(peak_data[0] >> 12) & 0x0f\<close> the cast binds tighter than \<^verbatim>\<open>&\<close>: the
  shifted word is cut to 8 bits first, then masked.
\<close>

definition channel_id :: "uint32_t list \<Rightarrow> byte" where
  "channel_id peak_data = (ucast (drop_bit 12 (peak_data ! 0)) :: byte) AND 0x0f"

definition fiber_id :: "uint32_t list \<Rightarrow> byte" where
  "fiber_id peak_data = (ucast (drop_bit 8 (peak_data ! 0)) :: byte) AND 0x0f"

definition sensor_id :: "uint32_t list \<Rightarrow> byte" where
  "sensor_id peak_data = ucast (peak_data ! 0 AND 0xff)"

section \<open>Header decoder\<close>

text \<open>
  \<^verbatim>\<open>struct I4PacketHeader\<close> under \<^verbatim>\<open>#pragma pack(1)\<close>: \<^verbatim>\<open>info\<close> at byte 0,
  \<^verbatim>\<open>dataOffset\<close> at byte 2, \<^verbatim>\<open>dataLength\<close> at byte 4, \<^verbatim>\<open>timeStamp\<close> at byte 8.
  The fields carry the prefix \<open>hdr_\<close>, the local variables of
  \<^verbatim>\<open>processPacket_Header\<close> of the same names do not.
\<close>

record I4PacketHeader =
  hdr_info :: uint16_t
  hdr_dataOffset :: uint16_t
  hdr_dataLength :: uint32_t
  hdr_timeStamp :: uint64_t

definition cast_I4PacketHeader :: "byte list \<Rightarrow> I4PacketHeader" where
  "cast_I4PacketHeader buffer_header =
     \<lparr>hdr_info = le16 buffer_header 0, hdr_dataOffset = le16 buffer_header 2,
      hdr_dataLength = le32 buffer_header 4, hdr_timeStamp = le64 buffer_header 8\<rparr>"

text \<open>
  What \<^verbatim>\<open>processPacket_Header\<close> computes: its local variables and the three
  \<^verbatim>\<open>int\<close> output parameters. \<^verbatim>\<open>*DL = dataLength\<close> converts a \<^verbatim>\<open>uint32_t\<close> to
  \<^verbatim>\<open>int\<close>, so a length of \<^verbatim>\<open>2^31\<close> or more becomes negative. The sum for
  \<^verbatim>\<open>totalPacketSize\<close> is unsigned 32-bit arithmetic. The function has one
  \<^verbatim>\<open>return\<close>, of 0; the model keeps it as the first component. The calendar time
  that the spectral program prints is display only and is left out.
\<close>

record header_out =
  packetCounter :: uint16_t
  sweepingType :: uint16_t
  triggerMode :: uint16_t
  dataOffset :: uint16_t
  dataLength :: uint32_t
  totalPacketSize :: uint32_t
  sweep_type :: int
  DO :: int
  DL :: int

definition processPacket_Header :: "byte list \<Rightarrow> int \<times> header_out" where
  "processPacket_Header buffer_header =
     (let header = cast_I4PacketHeader buffer_header;
          packetCounterMask = 0xFFF;
          sweepingTypeMask = 0x7000;
          triggerModeMask = 0x8000;
          packetCounter = hdr_info header AND packetCounterMask;
          sweepingType = drop_bit 12 (hdr_info header AND sweepingTypeMask);
          triggerMode = drop_bit 15 (hdr_info header AND triggerModeMask);
          dataOffset = hdr_dataOffset header;
          dataLength = hdr_dataLength header;
          totalPacketSize = ucast dataOffset + dataLength + 8
      in (0, \<lparr>packetCounter = packetCounter, sweepingType = sweepingType,
               triggerMode = triggerMode, dataOffset = dataOffset,
               dataLength = dataLength, totalPacketSize = totalPacketSize,
               sweep_type = uint sweepingType, DO = uint dataOffset,
               DL = sint dataLength\<rparr>))"

section \<open>Payload decoders\<close>

record peak_out =
  po_sensor :: byte
  po_fiber :: byte
  po_channel :: byte
  po_wavelength :: uint64_t

text \<open>
  \<^verbatim>\<open>processPacket_Payload\<close> and \<^verbatim>\<open>processPacket_tsPayload\<close>: the spectral program
  prints the four values, the force-calibrated program stores them through its output
  parameters. The third word of the time-stamped payload is copied and not used.
\<close>

definition processPacket_Payload :: "byte list \<Rightarrow> peak_out" where
  "processPacket_Payload buffer_payload =
     (let peak_data = [le32 buffer_payload 0, le32 buffer_payload 4]
      in \<lparr>po_sensor = sensor_id peak_data, po_fiber = fiber_id peak_data,
          po_channel = channel_id peak_data, po_wavelength = wavelength peak_data\<rparr>)"

definition processPacket_tsPayload :: "byte list \<Rightarrow> peak_out" where
  "processPacket_tsPayload buffer_payload =
     (let peak_data = [le32 buffer_payload 0, le32 buffer_payload 4, le32 buffer_payload 8]
      in \<lparr>po_sensor = sensor_id peak_data, po_fiber = fiber_id peak_data,
          po_channel = channel_id peak_data, po_wavelength = wavelength peak_data\<rparr>)"

record spectral_info_out =
  si_sensor :: byte
  si_fiber :: byte
  si_channel :: byte
  si_points :: uint32_t

definition processPacket_spectralPayload_info :: "byte list \<Rightarrow> spectral_info_out" where
  "processPacket_spectralPayload_info buffer_payload =
     (let data = [le32 buffer_payload 0, le32 buffer_payload 4]
      in \<lparr>si_sensor = sensor_id data, si_fiber = fiber_id data,
          si_channel = channel_id data, si_points = data ! 1\<rparr>)"

text \<open>The four \<^verbatim>\<open>int16_t\<close> amplitudes of one spectral element (\<open>sint\<close> reads them).\<close>

definition processPacket_spectralPayload ::
  "byte list \<Rightarrow> uint16_t \<times> uint16_t \<times> uint16_t \<times> uint16_t" where
  "processPacket_spectralPayload buffer_payload =
     (le16 buffer_payload 0, le16 buffer_payload 2, le16 buffer_payload 4, le16 buffer_payload 6)"

text \<open>
  \<^verbatim>\<open>processPacket_errorPayload\<close> prints the error type and, for the codes 500 and 501
  only, the sensor, fiber and channel of \<^verbatim>\<open>data\<close>, whose word 0 is the description.
\<close>

datatype error_report =
    MissingPeak byte byte byte
  | MultiplePeaks byte byte byte
  | InternalError

definition processPacket_errorPayload :: "byte list \<Rightarrow> error_report" where
  "processPacket_errorPayload error_payload =
     (let error_id = le32 error_payload 0;
          error_description = le32 error_payload 4;
          data = [error_description, error_id]
      in if data ! 1 = 500 then MissingPeak (sensor_id data) (fiber_id data) (channel_id data)
         else if data ! 1 = 501 then MultiplePeaks (sensor_id data) (fiber_id data) (channel_id data)
         else InternalError)"

section \<open>Calibration table\<close>

text \<open>
  \<^verbatim>\<open>double FBGs_info[4][1][2]\<close> of the force-calibrated program. An entry is the
  \<^verbatim>\<open>double\<close> \<^verbatim>\<open>CHANNEL_c_SENSOR_s_WAVELENGTH / 1e9\<close>, named here by its macro. C gives
  no meaning to an index outside its dimension; the lookup returns \<open>None\<close> there.
\<close>

datatype fbg_wavelength =
    CHANNEL_1_SENSOR_1_WAVELENGTH | CHANNEL_1_SENSOR_2_WAVELENGTH
  | CHANNEL_2_SENSOR_1_WAVELENGTH | CHANNEL_2_SENSOR_2_WAVELENGTH
  | CHANNEL_3_SENSOR_1_WAVELENGTH | CHANNEL_3_SENSOR_2_WAVELENGTH
  | CHANNEL_4_SENSOR_1_WAVELENGTH | CHANNEL_4_SENSOR_2_WAVELENGTH

definition FBGs_info :: "fbg_wavelength list list list" where
  "FBGs_info =
     [[[CHANNEL_1_SENSOR_1_WAVELENGTH, CHANNEL_1_SENSOR_2_WAVELENGTH]],
      [[CHANNEL_2_SENSOR_1_WAVELENGTH, CHANNEL_2_SENSOR_2_WAVELENGTH]],
      [[CHANNEL_3_SENSOR_1_WAVELENGTH, CHANNEL_3_SENSOR_2_WAVELENGTH]],
      [[CHANNEL_4_SENSOR_1_WAVELENGTH, CHANNEL_4_SENSOR_2_WAVELENGTH]]]"

definition index :: "'a list \<Rightarrow> int \<Rightarrow> 'a option" where
  "index xs i = (if 0 \<le> i \<and> i < int (length xs) then Some (xs ! nat i) else None)"

definition FBGs_lookup :: "int \<Rightarrow> int \<Rightarrow> int \<Rightarrow> fbg_wavelength option" where
  "FBGs_lookup channel fiber sensor =
     (case index FBGs_info channel of
        None \<Rightarrow> None
      | Some plane \<Rightarrow>
          (case index plane fiber of
             None \<Rightarrow> None
           | Some row \<Rightarrow> index row sensor))"

section \<open>The socket and the trace of a run\<close>

text \<open>
  The socket is the list of what the next calls of \<^verbatim>\<open>recv\<close> will find: a segment of
  bytes that has arrived, or a failure. \<^verbatim>\<open>recv\<close> copies at most \<open>len\<close> bytes of the
  first segment to the start of the buffer and returns their number; it returns
  \<^verbatim>\<open>SOCKET_ERROR\<close> on a failure and 0 once the peer has closed (the empty list). In
  the last two cases the buffer keeps its contents.
\<close>

datatype chunk = Data "byte list" | Failure

type_synonym socket = "chunk list"

definition SOCKET_ERROR :: int where "SOCKET_ERROR = - 1"

definition recv :: "socket \<Rightarrow> byte list \<Rightarrow> nat \<Rightarrow> int \<times> byte list \<times> socket" where
  "recv s buf len =
     (case s of
        [] \<Rightarrow> (0, buf, [])
      | Failure # rest \<Rightarrow> (SOCKET_ERROR, buf, rest)
      | Data bs # rest \<Rightarrow>
          if length bs \<le> len
          then (int (length bs), bs @ drop (length bs) buf, rest)
          else (int len, take len bs @ drop len buf, Data (drop len bs) # rest))"

text \<open>
  A run is observed through its trace: every call of \<^verbatim>\<open>recv\<close> with the buffer
  it fills (\<^verbatim>\<open>buffer_header\<close>, \<^verbatim>\<open>buffer_payload\<close>, \<^verbatim>\<open>error_payload\<close> or
  \<^verbatim>\<open>buffer_flag\<close>), the length asked and the value returned (the messages printed after a call
  are functions of that value), and every decoded element. For the force-calibrated program a peak element
  carries the decoded values and the table entry looked up with them, the two inputs
  of \<^verbatim>\<open>calibrationForce\<close>; the \<^verbatim>\<open>double\<close> arithmetic of that function is not
  evaluated.
\<close>

datatype buffer = HeaderBuf | PayloadBuf | ErrorBuf | FlagBuf

datatype event =
    Recv buffer nat int
  | HeaderOut header_out
  | PeakOut peak_out
  | TsPeakOut peak_out
  | SpectralInfoOut spectral_info_out
  | SpectralOut "uint16_t \<times> uint16_t \<times> uint16_t \<times> uint16_t"
  | ErrorOut error_report
  | PeakForce peak_out "fbg_wavelength option"
  | TsPeakForce peak_out "fbg_wavelength option"

datatype kind = KRecv buffer nat | KHeader | KPeak | KTsPeak | KSpectralInfo | KSpectral | KError

fun kind_of :: "event \<Rightarrow> kind" where
  "kind_of (Recv b len r) = KRecv b len"
| "kind_of (HeaderOut h) = KHeader"
| "kind_of (PeakOut p) = KPeak"
| "kind_of (TsPeakOut p) = KTsPeak"
| "kind_of (SpectralInfoOut i) = KSpectralInfo"
| "kind_of (SpectralOut a) = KSpectral"
| "kind_of (ErrorOut e) = KError"
| "kind_of (PeakForce p w) = KPeak"
| "kind_of (TsPeakForce p w) = KTsPeak"

section \<open>Frame orchestrator\<close>

text \<open>
  Every payload loop of the two programs has the form
  \<^verbatim>\<open>for (int i = i0; i < n; i++) { recv(hSocket, buffer_payload, sz, 0); process(buffer_payload); }\<close>
  with the buffer declared before the loop, so that a call of \<^verbatim>\<open>recv\<close> that delivers
  nothing leaves the previous element in it.
\<close>

function for_recv ::
  "nat \<Rightarrow> (byte list \<Rightarrow> event) \<Rightarrow> int \<Rightarrow> int \<Rightarrow> socket \<Rightarrow> byte list \<Rightarrow> socket \<times> event list" where
  "for_recv sz process i n s buf =
     (if i < n
      then (case recv s buf sz of
              (pbytesRead, buf', s') \<Rightarrow>
                (case for_recv sz process (i + 1) n s' buf' of
                   (s'', evs) \<Rightarrow> (s'', Recv PayloadBuf sz pbytesRead # process buf' # evs)))
      else (s, []))"
  by pat_completeness auto
termination
  by (relation "measure (\<lambda>(sz, process, i, n, s, buf). nat (n - i))") auto

declare for_recv.simps [simp del]

text \<open>The header that the pass starting at a socket state receives and decodes.\<close>

definition frame_header :: "socket \<Rightarrow> header_out" where
  "frame_header s =
     (case recv s (replicate HEADER_SIZE 0) HEADER_SIZE of
        (hbytesRead, buffer_header, s1) \<Rightarrow> snd (processPacket_Header buffer_header))"

text \<open>
  The payload phase of the spectral program for \<^verbatim>\<open>DO == 16\<close>. \<^verbatim>\<open>DL / size\<close> is C's
  division of \<^verbatim>\<open>int\<close>, which truncates towards zero.
\<close>

definition payload_spectral :: "header_out \<Rightarrow> socket \<Rightarrow> socket \<times> event list" where
  "payload_spectral h s =
     (if sweep_type h = 0
      then for_recv PEAK_PAYLOAD_SIZE (\<lambda>b. PeakOut (processPacket_Payload b))
             0 (DL h sdiv int PEAK_PAYLOAD_SIZE) s (replicate PEAK_PAYLOAD_SIZE 0)
      else if sweep_type h = 1
      then (case recv s (replicate SPECTRAL_PAYLOAD_SIZE 0) SPECTRAL_PAYLOAD_SIZE of
              (pbytesRead, buffer_payload, s') \<Rightarrow>
                (case for_recv SPECTRAL_PAYLOAD_SIZE (\<lambda>b. SpectralOut (processPacket_spectralPayload b))
                        1 (DL h sdiv int SPECTRAL_PAYLOAD_SIZE) s' buffer_payload of
                   (s'', evs) \<Rightarrow>
                     (s'', Recv PayloadBuf SPECTRAL_PAYLOAD_SIZE pbytesRead
                           # SpectralInfoOut (processPacket_spectralPayload_info buffer_payload)
                           # evs)))
      else if sweep_type h = 2
      then for_recv TSPEAK_PAYLOAD_SIZE (\<lambda>b. TsPeakOut (processPacket_tsPayload b))
             0 (DL h sdiv int TSPEAK_PAYLOAD_SIZE) s (replicate TSPEAK_PAYLOAD_SIZE 0)
      else (s, []))"

text \<open>
  One pass through the body of \<^verbatim>\<open>while (1)\<close> of the spectral program. The third
  component says that the pass ended in a \<^verbatim>\<open>break\<close>: both ways through the body do.
\<close>

definition frame_spectral :: "socket \<Rightarrow> socket \<times> event list \<times> bool" where
  "frame_spectral s =
     (case recv s (replicate HEADER_SIZE 0) HEADER_SIZE of
        (hbytesRead, buffer_header, s1) \<Rightarrow>
          (case processPacket_Header buffer_header of
             (rc, h) \<Rightarrow>
               if DO h = 16
               then (case payload_spectral h s1 of
                       (s2, payload) \<Rightarrow>
                         (case recv s2 (replicate FLAG_SIZE 0) FLAG_SIZE of
                            (fbytesRead, buffer_flag, s3) \<Rightarrow>
                              (s3, [Recv HeaderBuf HEADER_SIZE hbytesRead, HeaderOut h] @ payload
                                   @ [Recv FlagBuf FLAG_SIZE fbytesRead], True)))
               else (case recv s1 (replicate ERROR_PAYLOAD_SIZE 0) ERROR_PAYLOAD_SIZE of
                       (ebytesRead, error_payload, s2) \<Rightarrow>
                         (s2, [Recv HeaderBuf HEADER_SIZE hbytesRead, HeaderOut h,
                               Recv ErrorBuf ERROR_PAYLOAD_SIZE ebytesRead,
                               ErrorOut (processPacket_errorPayload error_payload)], True))))"

text \<open>
  The force-calibrated program reads a peak or time-stamped peak element, looks the
  reference wavelength up with the decoded \<^verbatim>\<open>int\<close> indices and calls
  \<^verbatim>\<open>calibrationForce\<close>. Its two payload loops stand twice in the source, once in each
  branch of \<^verbatim>\<open>if (DO == 16)\<close>.
\<close>

definition lookup_peak :: "peak_out \<Rightarrow> fbg_wavelength option" where
  "lookup_peak p = FBGs_lookup (uint (po_channel p)) (uint (po_fiber p)) (uint (po_sensor p))"

definition payload_peak :: "header_out \<Rightarrow> socket \<Rightarrow> socket \<times> event list" where
  "payload_peak h s =
     (if sweep_type h = 0
      then for_recv PEAK_PAYLOAD_SIZE
             (\<lambda>b. PeakForce (processPacket_Payload b) (lookup_peak (processPacket_Payload b)))
             0 (DL h sdiv int PEAK_PAYLOAD_SIZE) s (replicate PEAK_PAYLOAD_SIZE 0)
      else if sweep_type h = 2
      then for_recv TSPEAK_PAYLOAD_SIZE
             (\<lambda>b. TsPeakForce (processPacket_tsPayload b) (lookup_peak (processPacket_tsPayload b)))
             0 (DL h sdiv int TSPEAK_PAYLOAD_SIZE) s (replicate TSPEAK_PAYLOAD_SIZE 0)
      else (s, []))"

text \<open>One pass through the body of \<^verbatim>\<open>while (1)\<close> of the force-calibrated program.\<close>

definition frame_peak :: "socket \<Rightarrow> socket \<times> event list" where
  "frame_peak s =
     (case recv s (replicate HEADER_SIZE 0) HEADER_SIZE of
        (hbytesRead, buffer_header, s1) \<Rightarrow>
          (case processPacket_Header buffer_header of
             (rc, h) \<Rightarrow>
               (case (if DO h = 16
                      then payload_peak h s1
                      else (case recv s1 (replicate ERROR_PAYLOAD_SIZE 0) ERROR_PAYLOAD_SIZE of
                              (ebytesRead, error_payload, s2) \<Rightarrow>
                                (case payload_peak h s2 of
                                   (s3, payload) \<Rightarrow>
                                     (s3, Recv ErrorBuf ERROR_PAYLOAD_SIZE ebytesRead
                                          # ErrorOut (processPacket_errorPayload error_payload)
                                          # payload)))) of
                  (s4, payload) \<Rightarrow>
                    (case recv s4 (replicate FLAG_SIZE 0) FLAG_SIZE of
                       (fbytesRead, buffer_flag, s5) \<Rightarrow>
                         (s5, [Recv HeaderBuf HEADER_SIZE hbytesRead, HeaderOut h] @ payload
                              @ [Recv FlagBuf FLAG_SIZE fbytesRead])))))"

text \<open>
  The loops of \<^verbatim>\<open>main\<close>, from the connected socket on (the set-up of the connection,
  which can end \<^verbatim>\<open>main\<close> with 1, is outside the model). A run that returns gives the
  value returned and its trace; a run that does not return is \<open>None\<close>.
\<close>

partial_function (option) loop_spectral :: "socket \<times> event list \<Rightarrow> (int \<times> event list) option" where
  "loop_spectral st =
     (case st of
        (s, tr) \<Rightarrow>
          (case frame_spectral s of
             (s', evs, brk) \<Rightarrow>
               if brk then Some (0, tr @ evs) else loop_spectral (s', tr @ evs)))"

definition main_spectral :: "socket \<Rightarrow> (int \<times> event list) option" where
  "main_spectral s = loop_spectral (s, [])"

partial_function (option) loop_peak :: "socket \<times> event list \<Rightarrow> (int \<times> event list) option" where
  "loop_peak st =
     (case st of
        (s, tr) \<Rightarrow>
          (case frame_peak s of
             (s', evs) \<Rightarrow> loop_peak (s', tr @ evs)))"

definition main_peak :: "socket \<Rightarrow> (int \<times> event list) option" where
  "main_peak s = loop_peak (s, [])"

text \<open>
  The loop of the force-calibrated program has no exit, so its run is observed pass by
  pass: the socket and the trace after the first \<open>n\<close> passes through the body.
\<close>

fun frames_peak :: "nat \<Rightarrow> socket \<Rightarrow> socket \<times> event list" where
  "frames_peak 0 s = (s, [])"
| "frames_peak (Suc n) s =
     (case frame_peak s of
        (s', evs) \<Rightarrow> (case frames_peak n s' of (s'', evs') \<Rightarrow> (s'', evs @ evs')))"

section \<open>Notions used to state the properties\<close>

text \<open>
  The \<^verbatim>\<open>info\<close> field put together from its three parts, counter in bits 0 to 11,
  sweep type in bits 12 to 14, trigger mode in bit 15, and a 16-bit value stored
  little-endian. Neither is in the source, which only decodes.
\<close>

definition compose_info :: "uint16_t \<Rightarrow> uint16_t \<Rightarrow> uint16_t \<Rightarrow> uint16_t" where
  "compose_info counter sweep trigger = counter OR push_bit 12 sweep OR push_bit 15 trigger"

definition store16 :: "uint16_t \<Rightarrow> byte list" where
  "store16 v = [ucast v, ucast (drop_bit 8 v)]"

text \<open>The kinds of \<open>n\<close> payload elements read one after the other.\<close>

definition payload_elements :: "nat \<Rightarrow> kind \<Rightarrow> int \<Rightarrow> kind list" where
  "payload_elements sz k n = concat (replicate (nat n) [KRecv PayloadBuf sz, k])"

fun recv_into :: "buffer \<Rightarrow> kind \<Rightarrow> bool" where
  "recv_into b (KRecv b' len) = (b = b')"
| "recv_into b KHeader = False"
| "recv_into b KPeak = False"
| "recv_into b KTsPeak = False"
| "recv_into b KSpectralInfo = False"
| "recv_into b KSpectral = False"
| "recv_into b KError = False"

text \<open>
  Three byte streams, each arriving in segments. An error frame (\<^verbatim>\<open>dataOffset\<close> 24,
  sweep type 0, \<^verbatim>\<open>dataLength\<close> 8): header, error element 500 for sensor 1 of channel 1,
  one peak element of that sensor, flag, and the header of a next frame. A spectral
  frame with \<^verbatim>\<open>dataLength\<close> 40: header, info element, four sample elements, flag. The
  start of a spectral frame whose \<^verbatim>\<open>dataLength\<close> is \<open>2^31 + 8\<close>. A frame whose
  header has sweep type 3.
\<close>

definition error_frame_socket :: socket where
  "error_frame_socket =
     [Data [0x01, 0x00, 0x18, 0x00, 0x08, 0x00, 0x00, 0x00, 0, 0, 0, 0, 0, 0, 0, 0],
      Data [0xf4, 0x01, 0x00, 0x00, 0x01, 0x10, 0x00, 0x00],
      Data [0x01, 0x10, 0xc2, 0x7e, 0x7c, 0xbf, 0xb9, 0x3e],
      Data [0x07, 0x00, 0x00, 0x00, 0, 0, 0, 0],
      Data [0x02, 0x00, 0x10, 0x00, 0x08, 0x00, 0x00, 0x00, 0, 0, 0, 0, 0, 0, 0, 0]]"

definition spectral_frame_socket :: socket where
  "spectral_frame_socket =
     [Data [0x01, 0x10, 0x10, 0x00, 0x28, 0x00, 0x00, 0x00, 0, 0, 0, 0, 0, 0, 0, 0],
      Data [0x01, 0x10, 0x00, 0x00, 0x10, 0x00, 0x00, 0x00],
      Data [0x01, 0x00, 0x02, 0x00, 0x03, 0x00, 0x04, 0x00,
            0x05, 0x00, 0x06, 0x00, 0x07, 0x00, 0x08, 0x00],
      Data [0x09, 0x00, 0x0a, 0x00, 0x0b, 0x00, 0x0c, 0x00,
            0x0d, 0x00, 0x0e, 0x00, 0x0f, 0x00, 0x10, 0x00],
      Data [0x07, 0x00, 0x00, 0x00, 0, 0, 0, 0]]"

definition long_spectral_socket :: socket where
  "long_spectral_socket =
     [Data [0x01, 0x10, 0x10, 0x00, 0x08, 0x00, 0x00, 0x80, 0, 0, 0, 0, 0, 0, 0, 0],
      Data [0x01, 0x10, 0x00, 0x00, 0x10, 0x00, 0x00, 0x00],
      Data [0x01, 0x00, 0x02, 0x00, 0x03, 0x00, 0x04, 0x00]]"

definition unknown_sweep_socket :: socket where
  "unknown_sweep_socket =
     [Data [0x01, 0x30, 0x10, 0x00, 0x08, 0x00, 0x00, 0x00, 0, 0, 0, 0, 0, 0, 0, 0],
      Data [0x01, 0x10, 0xc2, 0x7e, 0x7c, 0xbf, 0xb9, 0x3e],
      Data [0x07, 0x00, 0x00, 0x00, 0, 0, 0, 0]]"

section \<open>Field extractors: bit ranges and the wavelength pattern\<close>

lemma mask_0x0f: "(0x0f :: byte) = mask 4"
  by (simp add: mask_eq_exp_minus_1)

lemma mask_0xff: "(0xff :: uint32_t) = mask 8"
  by (simp add: mask_eq_exp_minus_1)

lemma mask_0xffff: "(0xffff :: uint32_t) = mask 16"
  by (simp add: mask_eq_exp_minus_1)

lemma mask_0x7fff: "(0x7fff :: uint32_t) = mask 15"
  by (simp add: mask_eq_exp_minus_1)

lemma mask_0xffff0000: "(0xffff0000 :: uint32_t) = NOT (mask 16)"
  by (simp add: mask_eq_exp_minus_1)

lemma mask64_0xffff: "(0xffff :: uint64_t) = mask 16"
  by (simp add: mask_eq_exp_minus_1)

lemma mask64_0x7fff: "(0x7fff :: uint64_t) = mask 15"
  by (simp add: mask_eq_exp_minus_1)

lemma bit_sensor_id: "bit (sensor_id (w0 # ws)) n \<longleftrightarrow> n < 8 \<and> bit w0 n"
  by (auto simp add: sensor_id_def mask_0xff bit_simps)

lemma bit_fiber_id: "bit (fiber_id (w0 # ws)) n \<longleftrightarrow> n < 4 \<and> bit w0 (8 + n)"
  by (auto simp add: fiber_id_def mask_0x0f bit_simps)

lemma bit_channel_id: "bit (channel_id (w0 # ws)) n \<longleftrightarrow> n < 4 \<and> bit w0 (12 + n)"
  by (auto simp add: channel_id_def mask_0x0f bit_simps)

lemma unat_low_nibble: "unat ((x :: byte) AND 0x0f) < 16"
proof -
  have "unat (take_bit 4 x) < 2 ^ 4"
    unfolding unsigned_take_bit_eq by (rule take_bit_nat_less_exp)
  then show ?thesis by (simp add: mask_0x0f flip: take_bit_eq_mask)
qed

text \<open>
  Claim C4: for all words \<open>w0\<close>, \<open>w1\<close> and every 16-bit value \<open>v\<close>, the wavelength of
  \<open>(w0 & 0xFFFF0000) | v\<close> and \<open>w1\<close> is the wavelength of \<open>w0\<close> and \<open>w1\<close>: the bit pattern
  that is read as a double depends on the upper 16 bits of \<open>w0\<close> and on \<open>w1\<close> only, its
  low 16 bits being \<open>0x7FFF\<close> always.
\<close>

theorem wavelength_ignores_id_bits:
  "wavelength (((w0 AND 0xFFFF0000) OR ucast (v :: uint16_t)) # w1 # ws) = wavelength [w0, w1]
   \<and> wavelength [w0, w1] AND 0xFFFF = 0x7FFF"
proof
  show "wavelength (((w0 AND 0xFFFF0000) OR ucast v) # w1 # ws) = wavelength [w0, w1]"
    unfolding wavelength_def Let_def mask_0xffff mask_0x7fff mask_0xffff0000
    by (simp, rule bit_eqI) (auto simp add: bit_simps dest: bit_imp_le_length)
  show "wavelength [w0, w1] AND 0xFFFF = 0x7FFF"
    unfolding wavelength_def Let_def mask_0xffff mask_0x7fff mask64_0xffff mask64_0x7fff
    by (simp, rule bit_eqI) (auto simp add: bit_simps)
qed

text \<open>
  Claim C8: for every 32-bit word \<open>w0\<close> the sensor id is below 256 and the fiber and
  channel ids are below 16, and the three extractors read the disjoint bit ranges 0 to 7,
  8 to 11 and 12 to 15 of \<open>w0\<close>: bit \<open>n\<close> of each id is one bit of its own range.
\<close>

theorem id_extractors_ranges:
  "unat (sensor_id (w0 # ws)) < 256
   \<and> unat (fiber_id (w0 # ws)) < 16
   \<and> unat (channel_id (w0 # ws)) < 16
   \<and> (bit (sensor_id (w0 # ws)) n \<longleftrightarrow> n < 8 \<and> bit w0 n)
   \<and> (bit (fiber_id (w0 # ws)) n \<longleftrightarrow> n < 4 \<and> bit w0 (8 + n))
   \<and> (bit (channel_id (w0 # ws)) n \<longleftrightarrow> n < 4 \<and> bit w0 (12 + n))"
proof -
  have "unat (sensor_id (w0 # ws)) < 2 ^ LENGTH(8)"
    by (rule unsigned_less)
  then have "unat (sensor_id (w0 # ws)) < 256"
    by simp
  moreover have "unat (fiber_id (w0 # ws)) < 16"
    unfolding fiber_id_def by (rule unat_low_nibble)
  moreover have "unat (channel_id (w0 # ws)) < 16"
    unfolding channel_id_def by (rule unat_low_nibble)
  ultimately show ?thesis
    using bit_sensor_id [of w0 ws n] bit_fiber_id [of w0 ws n] bit_channel_id [of w0 ws n]
    by blast
qed

section \<open>Header fields\<close>

lemma le16_store16: "le16 (store16 v @ rest) 0 = v"
  unfolding le16_def store16_def
  by (simp, rule bit_eqI) (auto simp add: bit_simps)

lemma mask_counter: "(0xFFF :: uint16_t) = mask 12"
  by (simp add: mask_eq_exp_minus_1)

lemma mask_sweep: "(0x7000 :: uint16_t) = push_bit 12 (mask 3)"
  by (simp add: mask_eq_exp_minus_1)

lemma mask_trigger: "(0x8000 :: uint16_t) = push_bit 15 (mask 1)"
  by (simp add: mask_eq_exp_minus_1)

lemma take_bit_unat: "unat (w :: uint16_t) < 2 ^ k \<Longrightarrow> take_bit k w = w"
  by (metis take_bit_nat_eq_self_iff unsigned_take_bit_eq word_eq_iff_unsigned)

lemma info_fields:
  "packetCounter (snd (processPacket_Header
      (store16 (compose_info (take_bit 12 c) (take_bit 3 s) (take_bit 1 t)) @ rest))) = take_bit 12 c"
  "sweepingType (snd (processPacket_Header
      (store16 (compose_info (take_bit 12 c) (take_bit 3 s) (take_bit 1 t)) @ rest))) = take_bit 3 s"
  "triggerMode (snd (processPacket_Header
      (store16 (compose_info (take_bit 12 c) (take_bit 3 s) (take_bit 1 t)) @ rest))) = take_bit 1 t"
  unfolding processPacket_Header_def cast_I4PacketHeader_def Let_def le16_store16
    compose_info_def mask_counter mask_sweep mask_trigger
  by (simp_all, (rule bit_eqI, auto simp add: bit_simps)+)

text \<open>
  Claim C6: for every packet counter up to \<open>0xFFF\<close>, sweep type up to 2 and trigger mode
  up to 1, a header whose \<^verbatim>\<open>info\<close> field is composed from them (counter in bits 0 to
  11, sweep type in bits 12 to 14, trigger mode in bit 15) decodes to these three values.
\<close>

theorem header_info_round_trip:
  assumes "counter \<le> 0xFFF" and "sweep \<le> 2" and "trigger \<le> 1"
  shows "packetCounter (snd (processPacket_Header
            (store16 (compose_info counter sweep trigger) @ rest))) = counter
       \<and> sweepingType (snd (processPacket_Header
            (store16 (compose_info counter sweep trigger) @ rest))) = sweep
       \<and> triggerMode (snd (processPacket_Header
            (store16 (compose_info counter sweep trigger) @ rest))) = trigger"
proof -
  have "unat counter < 2 ^ 12"
    using assms(1) by (simp add: word_le_nat_alt)
  then have c: "take_bit 12 counter = counter"
    by (rule take_bit_unat)
  have "unat sweep < 2 ^ 3"
    using assms(2) by (simp add: word_le_nat_alt)
  then have s: "take_bit 3 sweep = sweep"
    by (rule take_bit_unat)
  have "unat trigger < 2 ^ 1"
    using assms(3) by (simp add: word_le_nat_alt)
  then have t: "take_bit 1 trigger = trigger"
    by (rule take_bit_unat)
  show ?thesis
    using info_fields [of counter sweep trigger rest] by (simp only: c s t simp_thms)
qed

text \<open>
  The round trip at counter \<open>0xABC\<close>, sweep type 2 and external trigger: the \<^verbatim>\<open>info\<close>
  field is \<open>0xAABC\<close>.
\<close>

theorem header_info_round_trip_witness:
  "(0xABC :: uint16_t) \<le> 0xFFF \<and> (2 :: uint16_t) \<le> 2 \<and> (1 :: uint16_t) \<le> 1
   \<and> compose_info 0xABC 2 1 = 0xAABC
   \<and> packetCounter (snd (processPacket_Header
         (store16 (compose_info 0xABC 2 1) @ replicate 14 0))) = 0xABC
   \<and> sweepingType (snd (processPacket_Header
         (store16 (compose_info 0xABC 2 1) @ replicate 14 0))) = 2
   \<and> triggerMode (snd (processPacket_Header
         (store16 (compose_info 0xABC 2 1) @ replicate 14 0))) = 1"
proof -
  have c: "(0xABC :: uint16_t) \<le> 0xFFF" and s: "(2 :: uint16_t) \<le> 2"
    and t: "(1 :: uint16_t) \<le> 1"
    by simp_all
  have "compose_info 0xABC 2 1 = 0xAABC"
    by (simp add: compose_info_def)
  then show ?thesis
    using c s t header_info_round_trip [OF c s t, of "replicate 14 0"] by simp
qed

section \<open>Error payload\<close>


section \<open>Calibration table lookup\<close>

lemma FBGs_lookup_Some:
  "FBGs_lookup c f s \<noteq> None \<longleftrightarrow> 0 \<le> c \<and> c \<le> 3 \<and> f = 0 \<and> 0 \<le> s \<and> s \<le> 1"
proof (cases "0 \<le> c \<and> c \<le> 3")
  case False
  then show ?thesis
    by (auto simp add: FBGs_lookup_def index_def FBGs_info_def)
next
  case True
  then have "c = 0 \<or> c = 1 \<or> c = 2 \<or> c = 3"
    by arith
  then show ?thesis
    by (auto simp add: FBGs_lookup_def index_def FBGs_info_def)
qed

text \<open>
  Claim C10: in the force-calibrated program the lookup \<^verbatim>\<open>FBGs_info[channel][fiber][sensor]\<close>
  is within the bounds of the table (4 channels, 1 fiber, 2 sensors) if and only if the
  extracted channel id is at most 3, the fiber id is 0 and the sensor id is at most 1;
  the extractors admit channel 15, fiber 15 and sensor 255, so there are 8-byte peak
  payloads for which the lookup is outside the table.
\<close>

theorem FBGs_lookup_bounds:
  "(lookup_peak (processPacket_Payload b) \<noteq> None \<longleftrightarrow>
      po_channel (processPacket_Payload b) \<le> 3
      \<and> po_fiber (processPacket_Payload b) = 0
      \<and> po_sensor (processPacket_Payload b) \<le> 1)
   \<and> (\<exists>b'. length b' = PEAK_PAYLOAD_SIZE
         \<and> po_channel (processPacket_Payload b') = 15
         \<and> po_fiber (processPacket_Payload b') = 15
         \<and> po_sensor (processPacket_Payload b') = 255
         \<and> lookup_peak (processPacket_Payload b') = None)"
proof
  show "lookup_peak (processPacket_Payload b) \<noteq> None \<longleftrightarrow>
      po_channel (processPacket_Payload b) \<le> 3
      \<and> po_fiber (processPacket_Payload b) = 0
      \<and> po_sensor (processPacket_Payload b) \<le> 1"
    unfolding lookup_peak_def FBGs_lookup_Some
    by (simp add: word_le_def word_uint_eq_iff)
  have "length [0xff, 0xff, 0, 0, 0, 0, 0, 0 :: byte] = PEAK_PAYLOAD_SIZE
     \<and> po_channel (processPacket_Payload [0xff, 0xff, 0, 0, 0, 0, 0, 0]) = 15
     \<and> po_fiber (processPacket_Payload [0xff, 0xff, 0, 0, 0, 0, 0, 0]) = 15
     \<and> po_sensor (processPacket_Payload [0xff, 0xff, 0, 0, 0, 0, 0, 0]) = 255
     \<and> lookup_peak (processPacket_Payload [0xff, 0xff, 0, 0, 0, 0, 0, 0]) = None"
    by code_simp
  then show "\<exists>b'. length b' = PEAK_PAYLOAD_SIZE
         \<and> po_channel (processPacket_Payload b') = 15
         \<and> po_fiber (processPacket_Payload b') = 15
         \<and> po_sensor (processPacket_Payload b') = 255
         \<and> lookup_peak (processPacket_Payload b') = None"
    by (rule exI)
qed

section \<open>The shape of a frame's trace\<close>

text \<open>A buffer keeps its size, so every field of a struct is read inside it.\<close>

lemma length_recv: "len \<le> length buf \<Longrightarrow> length (fst (snd (recv s buf len))) = length buf"
  by (auto simp add: recv_def split: list.splits chunk.splits)

lemma sdiv_nonneg: "0 \<le> a \<Longrightarrow> 0 < b \<Longrightarrow> a sdiv b = a div (b :: int)"
  by (cases "a = 0") (simp_all add: signed_divide_int_def)

lemma for_recv_kinds:
  "(\<And>b. kind_of (process b) = k) \<Longrightarrow>
   map kind_of (snd (for_recv sz process i n s buf)) = payload_elements sz k (n - i)"
proof (induction sz process i n s buf rule: for_recv.induct)
  case (1 sz process i n s buf)
  show ?case
  proof (cases "i < n")
    case False
    then show ?thesis
      by (simp add: for_recv.simps [of sz process i n] payload_elements_def)
  next
    case True
    obtain r buf' s' where rv: "recv s buf sz = (r, buf', s')"
      by (cases "recv s buf sz") auto
    have ih: "map kind_of (snd (for_recv sz process (i + 1) n s' buf')) =
                payload_elements sz k (n - (i + 1))"
      using "1.IH" [OF True rv [symmetric] refl "1.prems"] .
    have n: "nat (n - i) = Suc (nat (n - (i + 1)))"
      using True by simp
    show ?thesis
      using True rv ih "1.prems"
      by (simp add: for_recv.simps [of sz process i n] n case_prod_beta payload_elements_def)
  qed
qed

lemma payload_spectral_kinds:
  "map kind_of (snd (payload_spectral h s)) =
     (if sweep_type h = 0 then payload_elements 8 KPeak (DL h sdiv 8)
      else if sweep_type h = 1
      then [KRecv PayloadBuf 8, KSpectralInfo] @ payload_elements 8 KSpectral (DL h sdiv 8 - 1)
      else if sweep_type h = 2 then payload_elements 12 KTsPeak (DL h sdiv 12)
      else [])"
  by (simp add: payload_spectral_def for_recv_kinds PEAK_PAYLOAD_SIZE_def
      SPECTRAL_PAYLOAD_SIZE_def TSPEAK_PAYLOAD_SIZE_def case_prod_beta)

lemma payload_peak_kinds:
  "map kind_of (snd (payload_peak h s)) =
     (if sweep_type h = 0 then payload_elements 8 KPeak (DL h sdiv 8)
      else if sweep_type h = 2 then payload_elements 12 KTsPeak (DL h sdiv 12)
      else [])"
  by (simp add: payload_peak_def for_recv_kinds PEAK_PAYLOAD_SIZE_def
      TSPEAK_PAYLOAD_SIZE_def case_prod_beta)

lemma frame_spectral_kinds:
  "map kind_of (fst (snd (frame_spectral s))) =
     (if DO (frame_header s) = 16
      then [KRecv HeaderBuf 16, KHeader]
           @ (if sweep_type (frame_header s) = 0
              then payload_elements 8 KPeak (DL (frame_header s) sdiv 8)
              else if sweep_type (frame_header s) = 1
              then [KRecv PayloadBuf 8, KSpectralInfo]
                   @ payload_elements 8 KSpectral (DL (frame_header s) sdiv 8 - 1)
              else if sweep_type (frame_header s) = 2
              then payload_elements 12 KTsPeak (DL (frame_header s) sdiv 12)
              else [])
           @ [KRecv FlagBuf 8]
      else [KRecv HeaderBuf 16, KHeader, KRecv ErrorBuf 8, KError])"
  by (simp add: frame_spectral_def frame_header_def case_prod_beta HEADER_SIZE_def
      FLAG_SIZE_def ERROR_PAYLOAD_SIZE_def payload_spectral_kinds)

lemma frame_peak_kinds:
  "map kind_of (snd (frame_peak s)) =
     [KRecv HeaderBuf 16, KHeader]
     @ (if DO (frame_header s) = 16 then [] else [KRecv ErrorBuf 8, KError])
     @ (if sweep_type (frame_header s) = 0
        then payload_elements 8 KPeak (DL (frame_header s) sdiv 8)
        else if sweep_type (frame_header s) = 2
        then payload_elements 12 KTsPeak (DL (frame_header s) sdiv 12)
        else [])
     @ [KRecv FlagBuf 8]"
  by (simp add: frame_peak_def frame_header_def case_prod_beta HEADER_SIZE_def
      FLAG_SIZE_def ERROR_PAYLOAD_SIZE_def payload_peak_kinds)

lemma frame_spectral_break: "snd (snd (frame_spectral s))"
  by (simp add: frame_spectral_def case_prod_beta)

lemma filter_payload_elements:
  "b \<noteq> PayloadBuf \<Longrightarrow> \<not> recv_into b k \<Longrightarrow>
   filter (recv_into b) (payload_elements sz k n) = []"
  unfolding payload_elements_def by (induction "nat n") simp_all

lemma frame_peak_header_reads:
  "filter (recv_into HeaderBuf) (map kind_of (snd (frame_peak s))) = [KRecv HeaderBuf 16]"
  by (simp add: frame_peak_kinds filter_payload_elements)

lemma frame_peak_flag_reads:
  "filter (recv_into FlagBuf) (map kind_of (snd (frame_peak s))) = [KRecv FlagBuf 8]"
  by (simp add: frame_peak_kinds filter_payload_elements)

lemma frame_header_fields:
  "sweep_type (frame_header s) = uint (sweepingType (frame_header s))"
  "DO (frame_header s) = uint (dataOffset (frame_header s))"
  "DL (frame_header s) = sint (dataLength (frame_header s))"
  by (simp_all add: frame_header_def processPacket_Header_def Let_def case_prod_beta)

section \<open>The loops of main\<close>

lemma loop_peak_None: "loop_peak st = None"
proof -
  have "loop_peak st = Some y \<Longrightarrow> False" for y
    by (rule loop_peak.raw_induct [where P = "\<lambda>st y. False"]) (auto split: prod.splits)
  then show ?thesis
    by (cases "loop_peak st") auto
qed

lemma frames_peak_Suc:
  "frames_peak (Suc n) s =
     (fst (frame_peak (fst (frames_peak n s))),
      snd (frames_peak n s) @ snd (frame_peak (fst (frames_peak n s))))"
proof (induction n arbitrary: s)
  case 0
  show ?case by (simp add: case_prod_beta)
next
  case (Suc n)
  have "frames_peak (Suc (Suc n)) s =
          (fst (frames_peak (Suc n) (fst (frame_peak s))),
           snd (frame_peak s) @ snd (frames_peak (Suc n) (fst (frame_peak s))))"
    by (simp add: case_prod_beta)
  also have "\<dots> =
          (fst (frame_peak (fst (frames_peak n (fst (frame_peak s))))),
           snd (frame_peak s) @ snd (frames_peak n (fst (frame_peak s)))
             @ snd (frame_peak (fst (frames_peak n (fst (frame_peak s))))))"
    by (simp only: Suc.IH fst_conv snd_conv)
  also have "\<dots> =
          (fst (frame_peak (fst (frames_peak (Suc n) s))),
           snd (frames_peak (Suc n) s) @ snd (frame_peak (fst (frames_peak (Suc n) s))))"
    by (simp add: case_prod_beta)
  finally show ?case .
qed

lemma frames_peak_header_reads:
  "filter (recv_into HeaderBuf) (map kind_of (snd (frames_peak n s))) =
     replicate n (KRecv HeaderBuf 16)"
  by (induction n arbitrary: s) (simp_all add: case_prod_beta frame_peak_header_reads)

lemma frames_peak_flag_reads:
  "filter (recv_into FlagBuf) (map kind_of (snd (frames_peak n s))) =
     replicate n (KRecv FlagBuf 8)"
  by (induction n arbitrary: s) (simp_all add: case_prod_beta frame_peak_flag_reads)

lemma main_spectral_returns: "main_spectral s = Some (0, fst (snd (frame_spectral s)))"
  unfolding main_spectral_def
  by (subst loop_spectral.simps) (simp add: case_prod_beta frame_spectral_break)

lemma sint_small:
  assumes "unat (w :: uint32_t) < 2 ^ 31"
  shows "sint w = int (unat w)"
proof -
  have "int (unat w) < int (2 ^ 31)"
    using assms by (simp only: of_nat_less_iff)
  then have lt: "uint w < 2 ^ 31"
    by simp
  have "- (2 ^ 31) \<le> (0 :: int)"
    by simp
  also have "(0 :: int) \<le> uint w"
    by simp
  finally have ge: "- (2 ^ 31) \<le> uint w" .
  have "signed_take_bit 31 (uint w) = uint w"
    using ge lt by (rule signed_take_bit_int_eq_self)
  then show ?thesis
    by (simp add: sint_uint)
qed

section \<open>Error frames\<close>

text \<open>
  Claim C1, as the code has it: for every frame whose decoded header has
  \<^verbatim>\<open>dataOffset != 16\<close>, both programs read exactly one 8-byte error payload after the
  header and decode it. The spectral program reads nothing more for that frame. The
  force-calibrated program then reads the normal payload as for any frame, that is
  \<^verbatim>\<open>DL / 8\<close> peak elements for sweep type 0, \<^verbatim>\<open>DL / 12\<close> time-stamped peak elements
  for sweep type 2 and none otherwise, and then the flag.
\<close>

theorem error_frame_reads:
  assumes "DO (frame_header s) \<noteq> 16"
  shows "map kind_of (fst (snd (frame_spectral s))) =
           [KRecv HeaderBuf 16, KHeader, KRecv ErrorBuf 8, KError]
       \<and> map kind_of (snd (frame_peak s)) =
           [KRecv HeaderBuf 16, KHeader, KRecv ErrorBuf 8, KError]
           @ (if sweep_type (frame_header s) = 0
              then payload_elements 8 KPeak (DL (frame_header s) sdiv 8)
              else if sweep_type (frame_header s) = 2
              then payload_elements 12 KTsPeak (DL (frame_header s) sdiv 12)
              else [])
           @ [KRecv FlagBuf 8]"
  using assms by (simp add: frame_spectral_kinds frame_peak_kinds)

text \<open>The two programs on the stream that starts with the error frame.\<close>

theorem error_frame_reads_witness:
  "DO (frame_header error_frame_socket) \<noteq> 16
   \<and> map kind_of (fst (snd (frame_spectral error_frame_socket))) =
       [KRecv HeaderBuf 16, KHeader, KRecv ErrorBuf 8, KError]
   \<and> map kind_of (snd (frame_peak error_frame_socket)) =
       [KRecv HeaderBuf 16, KHeader, KRecv ErrorBuf 8, KError]
       @ payload_elements 8 KPeak 1 @ [KRecv FlagBuf 8]"
proof -
  have h: "DO (frame_header error_frame_socket) \<noteq> 16"
    by code_simp
  have st: "sweep_type (frame_header error_frame_socket) = 0"
    by code_simp
  have dl: "DL (frame_header error_frame_socket) = 8"
    by code_simp
  show ?thesis
    using h error_frame_reads [OF h] by (simp add: st dl sdiv_nonneg)
qed

text \<open>
  The force-calibrated program on the error frame: after the error element it receives
  and decodes a peak element of 8 bytes, which the claim as first stated excludes.
\<close>

theorem error_frame_peak_counterexample:
  "DO (frame_header error_frame_socket) \<noteq> 16
   \<and> snd (frame_peak error_frame_socket) =
       [Recv HeaderBuf 16 16,
        HeaderOut \<lparr>packetCounter = 1, sweepingType = 0, triggerMode = 0, dataOffset = 24,
          dataLength = 8, totalPacketSize = 40, sweep_type = 0, DO = 24, DL = 8\<rparr>,
        Recv ErrorBuf 8 8, ErrorOut (MissingPeak 1 0 1),
        Recv PayloadBuf 8 8,
        PeakForce \<lparr>po_sensor = 1, po_fiber = 0, po_channel = 1,
          po_wavelength = 0x3eb9bf7c7ec27fff\<rparr> (Some CHANNEL_2_SENSOR_2_WAVELENGTH),
        Recv FlagBuf 8 8]"
  by code_simp

section \<open>Spectral frames\<close>

text \<open>
  Claim C2, as the code has it: for every spectral frame (sweep type 1,
  \<^verbatim>\<open>dataOffset == 16\<close>) with \<^verbatim>\<open>dataLength = 8 + 4k*8\<close> bytes, below \<open>2^31\<close>, the
  spectral program produces exactly one spectral info record, from the first 8-byte
  element, followed by exactly \<open>4k\<close> spectral sample records, each read and decoded in
  turn, and then reads the flag.
\<close>

theorem spectral_framing:
  assumes "sweep_type (frame_header s) = 1"
    and "DO (frame_header s) = 16"
    and "unat (dataLength (frame_header s)) = 8 + 4 * k * 8"
    and "8 + 4 * k * 8 < (2 :: nat) ^ 31"
  shows "map kind_of (fst (snd (frame_spectral s))) =
           [KRecv HeaderBuf 16, KHeader, KRecv PayloadBuf 8, KSpectralInfo]
           @ concat (replicate (4 * k) [KRecv PayloadBuf 8, KSpectral])
           @ [KRecv FlagBuf 8]"
proof -
  have "unat (dataLength (frame_header s)) < 2 ^ 31"
    using assms(3, 4) by simp
  then have "sint (dataLength (frame_header s)) = int (unat (dataLength (frame_header s)))"
    by (rule sint_small)
  then have dl: "DL (frame_header s) = 8 + 32 * int k"
    using assms(3) by (simp add: frame_header_fields(3))
  have "nat (DL (frame_header s) sdiv 8 - 1) = 4 * k"
    unfolding dl by (simp add: sdiv_nonneg)
  then show ?thesis
    using assms(1, 2) by (simp add: frame_spectral_kinds payload_elements_def)
qed

text \<open>The spectral frame of 40 bytes, \<open>k = 1\<close>.\<close>

theorem spectral_framing_witness:
  "sweep_type (frame_header spectral_frame_socket) = 1
   \<and> DO (frame_header spectral_frame_socket) = 16
   \<and> unat (dataLength (frame_header spectral_frame_socket)) = 8 + 4 * 1 * 8
   \<and> 8 + 4 * 1 * 8 < (2 :: nat) ^ 31
   \<and> map kind_of (fst (snd (frame_spectral spectral_frame_socket))) =
       [KRecv HeaderBuf 16, KHeader, KRecv PayloadBuf 8, KSpectralInfo]
       @ concat (replicate (4 * 1) [KRecv PayloadBuf 8, KSpectral])
       @ [KRecv FlagBuf 8]"
proof -
  have st: "sweep_type (frame_header spectral_frame_socket) = 1"
    by code_simp
  have d: "DO (frame_header spectral_frame_socket) = 16"
    by code_simp
  have dl: "unat (dataLength (frame_header spectral_frame_socket)) = 8 + 4 * 1 * 8"
    by code_simp
  have lt: "8 + 4 * 1 * 8 < (2 :: nat) ^ 31"
    by simp
  show ?thesis
    using st d dl lt spectral_framing [OF st d dl lt] by blast
qed

text \<open>
  With \<^verbatim>\<open>dataLength = 8 + 4*1*8 = 40\<close> the spectral program produces four sample
  records, not one. With \<^verbatim>\<open>dataLength = 8 + 4*67108864*8\<close>, which is \<open>2^31 + 8\<close>,
  \<^verbatim>\<open>DL\<close> is negative and the program reads no sample at all.
\<close>

theorem spectral_framing_counterexample:
  "sweep_type (frame_header spectral_frame_socket) = 1
   \<and> DO (frame_header spectral_frame_socket) = 16
   \<and> unat (dataLength (frame_header spectral_frame_socket)) = 8 + 4 * 1 * 8
   \<and> count_list (map kind_of (fst (snd (frame_spectral spectral_frame_socket)))) KSpectral = 4
   \<and> fst (snd (frame_spectral spectral_frame_socket)) =
       [Recv HeaderBuf 16 16,
        HeaderOut \<lparr>packetCounter = 1, sweepingType = 1, triggerMode = 0, dataOffset = 16,
          dataLength = 40, totalPacketSize = 64, sweep_type = 1, DO = 16, DL = 40\<rparr>,
        Recv PayloadBuf 8 8,
        SpectralInfoOut \<lparr>si_sensor = 1, si_fiber = 0, si_channel = 1, si_points = 16\<rparr>,
        Recv PayloadBuf 8 8, SpectralOut (1, 2, 3, 4),
        Recv PayloadBuf 8 8, SpectralOut (5, 6, 7, 8),
        Recv PayloadBuf 8 8, SpectralOut (9, 10, 11, 12),
        Recv PayloadBuf 8 8, SpectralOut (13, 14, 15, 16),
        Recv FlagBuf 8 8]
   \<and> sweep_type (frame_header long_spectral_socket) = 1
   \<and> DO (frame_header long_spectral_socket) = 16
   \<and> unat (dataLength (frame_header long_spectral_socket)) = 8 + 4 * 67108864 * 8
   \<and> DL (frame_header long_spectral_socket) = - 2147483640
   \<and> map kind_of (fst (snd (frame_spectral long_spectral_socket))) =
       [KRecv HeaderBuf 16, KHeader, KRecv PayloadBuf 8, KSpectralInfo, KRecv FlagBuf 8]"
proof -
  have "dataLength (frame_header long_spectral_socket) = 0x80000008"
    by code_simp
  then have long: "unat (dataLength (frame_header long_spectral_socket)) = 8 + 4 * 67108864 * 8"
    by simp
  have "sweep_type (frame_header spectral_frame_socket) = 1
   \<and> DO (frame_header spectral_frame_socket) = 16
   \<and> unat (dataLength (frame_header spectral_frame_socket)) = 8 + 4 * 1 * 8
   \<and> count_list (map kind_of (fst (snd (frame_spectral spectral_frame_socket)))) KSpectral = 4
   \<and> fst (snd (frame_spectral spectral_frame_socket)) =
       [Recv HeaderBuf 16 16,
        HeaderOut \<lparr>packetCounter = 1, sweepingType = 1, triggerMode = 0, dataOffset = 16,
          dataLength = 40, totalPacketSize = 64, sweep_type = 1, DO = 16, DL = 40\<rparr>,
        Recv PayloadBuf 8 8,
        SpectralInfoOut \<lparr>si_sensor = 1, si_fiber = 0, si_channel = 1, si_points = 16\<rparr>,
        Recv PayloadBuf 8 8, SpectralOut (1, 2, 3, 4),
        Recv PayloadBuf 8 8, SpectralOut (5, 6, 7, 8),
        Recv PayloadBuf 8 8, SpectralOut (9, 10, 11, 12),
        Recv PayloadBuf 8 8, SpectralOut (13, 14, 15, 16),
        Recv FlagBuf 8 8]
   \<and> sweep_type (frame_header long_spectral_socket) = 1
   \<and> DO (frame_header long_spectral_socket) = 16
   \<and> DL (frame_header long_spectral_socket) = - 2147483640
   \<and> map kind_of (fst (snd (frame_spectral long_spectral_socket))) =
       [KRecv HeaderBuf 16, KHeader, KRecv PayloadBuf 8, KSpectralInfo, KRecv FlagBuf 8]"
    by code_simp
  with long show ?thesis
    by blast
qed

section \<open>Headers with an unknown sweep type\<close>

text \<open>
  Claim C3, as the code has it: for every header whose extracted sweep type is greater
  than 2, header decoding returns 0 as for any header and hands the value on, and
  neither program reads any peak, spectral or time-stamped peak payload for that frame:
  with \<^verbatim>\<open>dataOffset == 16\<close> the flag read follows the header at once, otherwise the
  8-byte error payload is read (and, in the force-calibrated program, the flag after it).
\<close>

theorem unknown_sweep_type:
  assumes "recv s (replicate HEADER_SIZE 0) HEADER_SIZE = (hbytesRead, buffer_header, s1)"
    and "2 < sweepingType (snd (processPacket_Header buffer_header))"
  shows "fst (processPacket_Header buffer_header) = 0
       \<and> sweep_type (snd (processPacket_Header buffer_header)) =
           uint (sweepingType (snd (processPacket_Header buffer_header)))
       \<and> map kind_of (fst (snd (frame_spectral s))) =
           (if DO (snd (processPacket_Header buffer_header)) = 16
            then [KRecv HeaderBuf 16, KHeader, KRecv FlagBuf 8]
            else [KRecv HeaderBuf 16, KHeader, KRecv ErrorBuf 8, KError])
       \<and> map kind_of (snd (frame_peak s)) =
           (if DO (snd (processPacket_Header buffer_header)) = 16
            then [KRecv HeaderBuf 16, KHeader, KRecv FlagBuf 8]
            else [KRecv HeaderBuf 16, KHeader, KRecv ErrorBuf 8, KError, KRecv FlagBuf 8])"
proof -
  have h: "frame_header s = snd (processPacket_Header buffer_header)"
    using assms(1) by (simp add: frame_header_def)
  have "2 < uint (sweepingType (frame_header s))"
    using assms(2) by (simp add: h word_less_def)
  then have st: "2 < sweep_type (frame_header s)"
    by (simp add: frame_header_fields(1))
  have rc: "fst (processPacket_Header buffer_header) = 0"
    by (simp add: processPacket_Header_def Let_def)
  show ?thesis
    using st rc frame_header_fields(1) [of s]
    by (simp add: frame_spectral_kinds frame_peak_kinds flip: h)
qed

text \<open>The frame whose header has sweep type 3 and \<^verbatim>\<open>dataOffset\<close> 16.\<close>

theorem unknown_sweep_type_witness:
  "recv unknown_sweep_socket (replicate HEADER_SIZE 0) HEADER_SIZE =
     (16, [0x01, 0x30, 0x10, 0x00, 0x08, 0x00, 0x00, 0x00, 0, 0, 0, 0, 0, 0, 0, 0],
      [Data [0x01, 0x10, 0xc2, 0x7e, 0x7c, 0xbf, 0xb9, 0x3e],
       Data [0x07, 0x00, 0x00, 0x00, 0, 0, 0, 0]])
   \<and> 2 < sweepingType (snd (processPacket_Header
            [0x01, 0x30, 0x10, 0x00, 0x08, 0x00, 0x00, 0x00, 0, 0, 0, 0, 0, 0, 0, 0]))
   \<and> map kind_of (fst (snd (frame_spectral unknown_sweep_socket))) =
       [KRecv HeaderBuf 16, KHeader, KRecv FlagBuf 8]
   \<and> map kind_of (snd (frame_peak unknown_sweep_socket)) =
       [KRecv HeaderBuf 16, KHeader, KRecv FlagBuf 8]"
proof -
  have r: "recv unknown_sweep_socket (replicate HEADER_SIZE 0) HEADER_SIZE =
     (16, [0x01, 0x30, 0x10, 0x00, 0x08, 0x00, 0x00, 0x00, 0, 0, 0, 0, 0, 0, 0, 0],
      [Data [0x01, 0x10, 0xc2, 0x7e, 0x7c, 0xbf, 0xb9, 0x3e],
       Data [0x07, 0x00, 0x00, 0x00, 0, 0, 0, 0]])"
    by code_simp
  have st: "2 < sweepingType (snd (processPacket_Header
            [0x01, 0x30, 0x10, 0x00, 0x08, 0x00, 0x00, 0x00, 0, 0, 0, 0, 0, 0, 0, 0]))"
    by code_simp
  have d: "DO (snd (processPacket_Header
            [0x01, 0x30, 0x10, 0x00, 0x08, 0x00, 0x00, 0x00, 0, 0, 0, 0, 0, 0, 0, 0])) = 16"
    by code_simp
  show ?thesis
    using r st unknown_sweep_type [OF r st] by (simp only: d if_True simp_thms)
qed

text \<open>
  Decoding a header with sweep type 3 does not fail: the function returns 0 and the
  decoded values, and the force-calibrated program goes on with the frame.
\<close>

theorem unknown_sweep_type_counterexample:
  "processPacket_Header [0x01, 0x30, 0x10, 0x00, 0x08, 0x00, 0x00, 0x00, 0, 0, 0, 0, 0, 0, 0, 0] =
     (0, \<lparr>packetCounter = 1, sweepingType = 3, triggerMode = 0, dataOffset = 16,
          dataLength = 8, totalPacketSize = 32, sweep_type = 3, DO = 16, DL = 8\<rparr>)
   \<and> frame_peak unknown_sweep_socket =
       ([Data [0x07, 0x00, 0x00, 0x00, 0, 0, 0, 0]],
        [Recv HeaderBuf 16 16,
         HeaderOut \<lparr>packetCounter = 1, sweepingType = 3, triggerMode = 0, dataOffset = 16,
           dataLength = 8, totalPacketSize = 32, sweep_type = 3, DO = 16, DL = 8\<rparr>,
         Recv FlagBuf 8 8])"
  by code_simp

section \<open>The flag read and the loop\<close>

text \<open>
  Claim C7, as the code has it. In the force-calibrated program every pass through the
  loop, in either branch, ends with exactly one read of 8 flag bytes, and after any
  number \<open>n\<close> of passes a further pass follows on the socket as the passes before left
  it, starting with the read of the 16 header bytes: the trace of \<open>n\<close> passes holds
  \<open>n\<close> header reads and \<open>n\<close> flag reads, and the program never returns, whatever the
  socket delivers. In the spectral program a frame with \<^verbatim>\<open>dataOffset == 16\<close> ends with
  exactly one read of 8 flag bytes and a frame with another offset reads no flag; in both
  cases the program returns after this first frame.
\<close>

theorem flag_read_and_loop:
  "last (map kind_of (snd (frame_peak s))) = KRecv FlagBuf 8
   \<and> filter (recv_into FlagBuf) (map kind_of (snd (frame_peak s))) = [KRecv FlagBuf 8]
   \<and> frames_peak (Suc n) s =
       (fst (frame_peak (fst (frames_peak n s))),
        snd (frames_peak n s) @ snd (frame_peak (fst (frames_peak n s))))
   \<and> hd (map kind_of (snd (frame_peak (fst (frames_peak n s))))) = KRecv HeaderBuf 16
   \<and> last (map kind_of (snd (frame_peak (fst (frames_peak n s))))) = KRecv FlagBuf 8
   \<and> filter (recv_into HeaderBuf) (map kind_of (snd (frames_peak n s))) =
       replicate n (KRecv HeaderBuf 16)
   \<and> filter (recv_into FlagBuf) (map kind_of (snd (frames_peak n s))) =
       replicate n (KRecv FlagBuf 8)
   \<and> main_peak s = None
   \<and> (if DO (frame_header s) = 16
       then last (map kind_of (fst (snd (frame_spectral s)))) = KRecv FlagBuf 8
            \<and> filter (recv_into FlagBuf) (map kind_of (fst (snd (frame_spectral s)))) =
                [KRecv FlagBuf 8]
       else filter (recv_into FlagBuf) (map kind_of (fst (snd (frame_spectral s)))) = [])
   \<and> main_spectral s = Some (0, fst (snd (frame_spectral s)))"
proof -
  have first: "hd (map kind_of (snd (frame_peak s'))) = KRecv HeaderBuf 16
      \<and> last (map kind_of (snd (frame_peak s'))) = KRecv FlagBuf 8" for s'
    by (simp add: frame_peak_kinds)
  have "main_peak s = None"
    by (simp add: main_peak_def loop_peak_None)
  moreover have "if DO (frame_header s) = 16
       then last (map kind_of (fst (snd (frame_spectral s)))) = KRecv FlagBuf 8
            \<and> filter (recv_into FlagBuf) (map kind_of (fst (snd (frame_spectral s)))) =
                [KRecv FlagBuf 8]
       else filter (recv_into FlagBuf) (map kind_of (fst (snd (frame_spectral s)))) = []"
    by (simp add: frame_spectral_kinds filter_payload_elements)
  ultimately show ?thesis
    using first [of s] first [of "fst (frames_peak n s)"] frame_peak_flag_reads [of s]
      frames_peak_Suc [of n s] frames_peak_header_reads [of n s]
      frames_peak_flag_reads [of n s] main_spectral_returns [of s]
    by blast
qed

text \<open>
  The spectral program on the error frame reads no flag and returns with three segments
  still to be read. On a socket that the peer has closed the force-calibrated program
  goes on: each pass reads header, error element and flag, every \<^verbatim>\<open>recv\<close> returning
  0, and the program does not return.
\<close>

theorem flag_read_counterexample:
  "DO (frame_header error_frame_socket) \<noteq> 16
   \<and> frame_spectral error_frame_socket =
       ([Data [0x01, 0x10, 0xc2, 0x7e, 0x7c, 0xbf, 0xb9, 0x3e],
         Data [0x07, 0x00, 0x00, 0x00, 0, 0, 0, 0],
         Data [0x02, 0x00, 0x10, 0x00, 0x08, 0x00, 0x00, 0x00, 0, 0, 0, 0, 0, 0, 0, 0]],
        [Recv HeaderBuf 16 16,
         HeaderOut \<lparr>packetCounter = 1, sweepingType = 0, triggerMode = 0, dataOffset = 24,
           dataLength = 8, totalPacketSize = 40, sweep_type = 0, DO = 24, DL = 8\<rparr>,
         Recv ErrorBuf 8 8, ErrorOut (MissingPeak 1 0 1)],
        True)
   \<and> frames_peak 2 [] =
       ([],
        [Recv HeaderBuf 16 0,
         HeaderOut \<lparr>packetCounter = 0, sweepingType = 0, triggerMode = 0, dataOffset = 0,
           dataLength = 0, totalPacketSize = 8, sweep_type = 0, DO = 0, DL = 0\<rparr>,
         Recv ErrorBuf 8 0, ErrorOut InternalError, Recv FlagBuf 8 0,
         Recv HeaderBuf 16 0,
         HeaderOut \<lparr>packetCounter = 0, sweepingType = 0, triggerMode = 0, dataOffset = 0,
           dataLength = 0, totalPacketSize = 8, sweep_type = 0, DO = 0, DL = 0\<rparr>,
         Recv ErrorBuf 8 0, ErrorOut InternalError, Recv FlagBuf 8 0])
   \<and> main_peak [] = None"
proof -
  have "main_peak [] = None"
    by (simp add: main_peak_def loop_peak_None)
  moreover have "DO (frame_header error_frame_socket) \<noteq> 16"
    by code_simp
  moreover have "frame_spectral error_frame_socket =
       ([Data [0x01, 0x10, 0xc2, 0x7e, 0x7c, 0xbf, 0xb9, 0x3e],
         Data [0x07, 0x00, 0x00, 0x00, 0, 0, 0, 0],
         Data [0x02, 0x00, 0x10, 0x00, 0x08, 0x00, 0x00, 0x00, 0, 0, 0, 0, 0, 0, 0, 0]],
        [Recv HeaderBuf 16 16,
         HeaderOut \<lparr>packetCounter = 1, sweepingType = 0, triggerMode = 0, dataOffset = 24,
           dataLength = 8, totalPacketSize = 40, sweep_type = 0, DO = 24, DL = 8\<rparr>,
         Recv ErrorBuf 8 8, ErrorOut (MissingPeak 1 0 1)],
        True)"
    by code_simp
  moreover have "frames_peak 2 [] =
       ([],
        [Recv HeaderBuf 16 0,
         HeaderOut \<lparr>packetCounter = 0, sweepingType = 0, triggerMode = 0, dataOffset = 0,
           dataLength = 0, totalPacketSize = 8, sweep_type = 0, DO = 0, DL = 0\<rparr>,
         Recv ErrorBuf 8 0, ErrorOut InternalError, Recv FlagBuf 8 0,
         Recv HeaderBuf 16 0,
         HeaderOut \<lparr>packetCounter = 0, sweepingType = 0, triggerMode = 0, dataOffset = 0,
           dataLength = 0, totalPacketSize = 8, sweep_type = 0, DO = 0, DL = 0\<rparr>,
         Recv ErrorBuf 8 0, ErrorOut InternalError, Recv FlagBuf 8 0])"
    by code_simp
  ultimately show ?thesis
    by blast
qed

end
